theory Spec2Isabelle
  imports Complex_Main "HOL-Library.Word" "HOL-Library.Monad_Syntax" "HOL-Library.Log_Nat"
begin

unbundle bit_operations_syntax

section \<open>The C library, as far as vc830.c uses it\<close>

text \<open>
  \<^verbatim>\<open>typedef unsigned char byte;\<close> A C string is the list of its bytes before the
  terminating NUL. The source file is UTF-8, so the labels for micro, ohm and the
  degree sign are two bytes each (C2 B5, CE A9, C2 B0).
\<close>

type_synonym byte = "8 word"

definition isdigit :: "byte \<Rightarrow> bool" where
  "isdigit c = (0x30 \<le> c \<and> c \<le> 0x39)"

definition to_char :: "byte \<Rightarrow> char" where
  "to_char c = char_of (unat c)"

text \<open>
  Every destination of \<^verbatim>\<open>strcpy\<close> and \<^verbatim>\<open>strcat\<close> in the source is a fixed array.
  The model passes the size of that array as \<open>cap\<close>; writing the result and its NUL past the
  end of the array is undefined behaviour in C, which the model reports as \<open>None\<close>.
\<close>

definition strcpy :: "nat \<Rightarrow> string \<Rightarrow> string option" where
  "strcpy cap src = (if length src < cap then Some src else None)"

definition strcat :: "nat \<Rightarrow> string \<Rightarrow> string \<Rightarrow> string option" where
  "strcat cap dst src = (if length dst + length src < cap then Some (dst @ src) else None)"

subsection \<open>IEEE 754 binary64\<close>

text \<open>
  A finite \<^verbatim>\<open>double\<close> is a sign bit and a magnitude. \<open>round_double\<close> rounds a
  non-negative rational to the nearest binary64 value, ties to even (53-bit significand,
  least exponent \<open>-1074\<close>); no magnitude in the decoder comes near \<open>2 ^ 1024\<close>, so
  infinities are left out. \<open>atof\<close> and \<open>%f\<close> are taken as correctly rounded, as glibc's are.
\<close>

datatype double = Double (negative: bool) (magnitude: rat)

definition round_half_even :: "rat \<Rightarrow> int" where
  "round_half_even x =
     (let f = \<lfloor>x\<rfloor>; r = x - of_int f
      in if r < 1 / 2 then f else if 1 / 2 < r then f + 1 else if even f then f else f + 1)"

definition floor_log2 :: "rat \<Rightarrow> int" where
  "floor_log2 x =
     (let (a, b) = quotient_of x; e = bitlen a - bitlen b
      in if 2 powi e \<le> x then e else e - 1)"

definition round_double :: "rat \<Rightarrow> rat" where
  "round_double x =
     (if x = 0 then 0
      else let e = max (floor_log2 x - 52) (- 1074)
           in of_int (round_half_even (x / 2 powi e)) * 2 powi e)"

definition double_of_int :: "int \<Rightarrow> double" where
  "double_of_int i = Double (i < 0) (round_double (of_int \<bar>i\<bar>))"

definition double_of_rat :: "rat \<Rightarrow> double" where
  "double_of_rat x = Double (x < 0) (round_double \<bar>x\<bar>)"

definition dmul :: "double \<Rightarrow> double \<Rightarrow> double" where
  "dmul a b = Double (negative a \<noteq> negative b) (round_double (magnitude a * magnitude b))"

definition rat_of_double :: "double \<Rightarrow> rat" where
  "rat_of_double d = (if negative d then - magnitude d else magnitude d)"

definition is_digit_char :: "char \<Rightarrow> bool" where
  "is_digit_char c = (48 \<le> (of_char c :: int) \<and> (of_char c :: int) \<le> 57)"

definition digit_val :: "char \<Rightarrow> int" where
  "digit_val c = of_char c - 48"

definition decimal_val :: "string \<Rightarrow> int" where
  "decimal_val ds = foldl (\<lambda>n c. 10 * n + digit_val c) 0 ds"

text \<open>
  \<^verbatim>\<open>atof\<close> on a string that starts with neither white space, a sign, \<^verbatim>\<open>0x\<close>, \<^verbatim>\<open>inf\<close>
  nor \<^verbatim>\<open>nan\<close> and holds no exponent: the longest prefix of digits with at most one point
  is converted, and a string with no digit there converts to \<open>+0.0\<close>.
\<close>

definition atof :: "string \<Rightarrow> double" where
  "atof s =
     (let ip = takeWhile is_digit_char s;
          rest = dropWhile is_digit_char s;
          fp = (case rest of c # cs \<Rightarrow> if c = CHR ''.'' then takeWhile is_digit_char cs else []
                | [] \<Rightarrow> [])
      in if ip = [] \<and> fp = [] then Double False 0
         else Double False
                (round_double (of_int (decimal_val (ip @ fp)) / 10 ^ length fp)))"

definition digit_char :: "int \<Rightarrow> char" where
  "digit_char d = char_of (48 + d mod 10)"

text \<open>The decimal digits of a non-negative integer, and its last \<open>k\<close> digits.\<close>

function decimal :: "int \<Rightarrow> string" where
  "decimal n = (if n < 10 then [digit_char n] else decimal (n div 10) @ [digit_char n])"
  by pat_completeness auto
termination
  by (relation "measure nat") auto

declare decimal.simps [simp del]

primrec decimal_fixed :: "nat \<Rightarrow> int \<Rightarrow> string" where
  "decimal_fixed 0 n = []"
| "decimal_fixed (Suc k) n = decimal_fixed k (n div 10) @ [digit_char n]"

text \<open>\<^verbatim>\<open>snprintf(s, cap, "%f", d)\<close>: six digits after the point, at most \<open>cap - 1\<close> bytes.\<close>

definition format_f :: "double \<Rightarrow> string" where
  "format_f d =
     (let n = round_half_even (magnitude d * 10 ^ 6)
      in (if negative d then ''-'' else []) @ decimal (n div 10 ^ 6) @ ''.''
           @ decimal_fixed 6 (n mod 10 ^ 6))"

definition snprintf_f :: "nat \<Rightarrow> double \<Rightarrow> string" where
  "snprintf_f cap d = take (cap - 1) (format_f d)"

section \<open>The decoder's data\<close>

text \<open>\<^verbatim>\<open>struct timeval\<close>: seconds and microseconds.\<close>

type_synonym timeval = "int \<times> int"

text \<open>\<^verbatim>\<open>#define BUFFER_LEN 100\<close>\<close>

definition BUFFER_LEN :: nat where
  "BUFFER_LEN = 100"

text \<open>\<^verbatim>\<open>struct Vc830\<close>, field by field; a \<^verbatim>\<open>char\<close> array holds a C string.\<close>

record Vc830 =
  receivedAt :: timeval
  rawRisplay :: string
  sign :: char
  mode :: string
  unit :: string
  prefix :: string
  fullUnit :: string
  info :: string
  barGraph :: int
  barGraphIsShown :: bool
  batteryWarning :: bool
  autoRangeActive :: bool
  holdActive :: bool
  deltaActive :: bool
  overflow :: bool
  formatedValue :: string
  formatedSiValue :: string

text \<open>The struct after \<^verbatim>\<open>memset(vc830Data, 0, sizeof(*vc830Data))\<close>.\<close>

definition zeroed :: Vc830 where
  "zeroed =
     \<lparr>receivedAt = (0, 0), rawRisplay = [], sign = CHR 0x00, mode = [], unit = [],
      prefix = [], fullUnit = [], info = [], barGraph = 0, barGraphIsShown = False,
      batteryWarning = False, autoRangeActive = False, holdActive = False,
      deltaActive = False, overflow = False, formatedValue = [], formatedSiValue = []\<rparr>"

section \<open>strinsert, checkInfo, trimZeros\<close>

text \<open>
  \<^verbatim>\<open>strinsert(srcAndDest, pos, toInsert)\<close> builds the new string in a heap buffer large
  enough for it and copies it back into \<open>srcAndDest\<close>, an array of \<open>cap\<close> bytes.
\<close>

definition strinsert :: "nat \<Rightarrow> string \<Rightarrow> nat \<Rightarrow> string \<Rightarrow> string option" where
  "strinsert cap srcAndDest pos toInsert =
     (if pos \<le> length srcAndDest
      then strcpy cap (take pos srcAndDest @ toInsert @ drop pos srcAndDest)
      else None)"

text \<open>
  The four local arrays that \<^verbatim>\<open>checkInfo\<close> appends to, each of \<open>BUFFER_LEN\<close> bytes. The
  \<^verbatim>\<open>char* out\<close> argument of \<^verbatim>\<open>checkInfo\<close> points to one of them or is \<^verbatim>\<open>NULL\<close>.
\<close>

record labels =
  l_mode :: string
  l_prefix :: string
  l_unit :: string
  l_info :: string

datatype out = MODE | PREFIX | UNIT | INFO | NULL

fun deref :: "out \<Rightarrow> labels \<Rightarrow> string" where
  "deref MODE l = l_mode l"
| "deref PREFIX l = l_prefix l"
| "deref UNIT l = l_unit l"
| "deref INFO l = l_info l"
| "deref NULL l = []"

fun assign :: "out \<Rightarrow> string \<Rightarrow> labels \<Rightarrow> labels" where
  "assign MODE s l = l\<lparr>l_mode := s\<rparr>"
| "assign PREFIX s l = l\<lparr>l_prefix := s\<rparr>"
| "assign UNIT s l = l\<lparr>l_unit := s\<rparr>"
| "assign INFO s l = l\<lparr>l_info := s\<rparr>"
| "assign NULL s l = l"

definition checkInfo ::
  "byte list \<Rightarrow> nat \<Rightarrow> nat \<Rightarrow> string \<Rightarrow> out \<Rightarrow> labels \<Rightarrow> (bool \<times> labels) option" where
  "checkInfo buf statusByte statusBit label out l =
     (if buf ! (7 + statusByte - 1) AND push_bit statusBit 1 \<noteq> 0 then
        (if out \<noteq> NULL then
           do {
             s \<leftarrow> (if deref out l \<noteq> [] then strcat BUFFER_LEN (deref out l) '' ''
                   else Some (deref out l));
             s \<leftarrow> strcat BUFFER_LEN s label;
             Some (True, assign out s l)
           }
         else Some (True, l))
      else Some (False, l))"

text \<open>
  \<^verbatim>\<open>trimZeros\<close> walks back from the end of the string: the loop body sees the last
  character \<open>c\<close> and what precedes it.
\<close>

fun trimZeros_rev :: "string \<Rightarrow> string" where
  "trimZeros_rev [] = []"
| "trimZeros_rev (c # front) =
     (if c \<noteq> CHR ''0'' then c # front
      else if front \<noteq> [] \<and> hd front = CHR ''.'' then c # front
      else trimZeros_rev front)"

definition trimZeros :: "string \<Rightarrow> string" where
  "trimZeros s = rev (trimZeros_rev (rev s))"

section \<open>decodeFS9922Paket\<close>

text \<open>The non-ASCII labels, as the bytes of the UTF-8 source file.\<close>

definition micro :: string where
  "micro = [CHR 0xC2, CHR 0xB5]"

definition ohm :: string where
  "ohm = [CHR 0xCE, CHR 0xA9]"

definition degree :: string where
  "degree = [CHR 0xC2, CHR 0xB0]"

text \<open>
  The digit loop \<^verbatim>\<open>for (int i = 0; i < 4; i++)\<close>: \<open>None\<close> stands for its
  \<^verbatim>\<open>return -3\<close>.
\<close>

function readDigits :: "byte list \<Rightarrow> nat \<Rightarrow> string \<Rightarrow> string option" where
  "readDigits buf i val =
     (if i < 4 then
        (if \<not> isdigit (buf ! (1 + i)) then None
         else readDigits buf (i + 1) (val @ [to_char (buf ! (1 + i))]))
      else Some val)"
  by pat_completeness auto
termination
  by (relation "measure (\<lambda>(buf, i, val). 4 - i)") auto

declare readDigits.simps [simp del]

text \<open>
  Lines 237 to 260, "Check value/digits". \<open>Inl\<close> is an early return with that code, \<open>Inr\<close>
  the string \<^verbatim>\<open>value\<close> (an array of 6 bytes) together with the output struct.
\<close>

definition readValue :: "byte list \<Rightarrow> Vc830 \<Rightarrow> (int + string \<times> Vc830) option" where
  "readValue buf vc830Data =
     (if buf ! 1 = 0x3f \<and> buf ! 2 = 0x30 \<and> buf ! 3 = 0x3a \<and> buf ! 4 = 0x3f then
        do {
          let vc830Data = vc830Data\<lparr>overflow := True\<rparr>;
          val \<leftarrow> strcpy 6 ''OVF'';
          Some (Inr (val, vc830Data))
        }
      else
        (case readDigits buf 0 [] of
           None \<Rightarrow> Some (Inl (- 3))
         | Some val \<Rightarrow>
             do {
               let k = (- 1 :: int);
               let k = (if buf ! 6 = 0x31 then 1 else k);
               let k = (if buf ! 6 = 0x32 then 2 else k);
               let k = (if buf ! 6 = 0x33 then 3 else k);
               let k = (if buf ! 6 = 0x34 then 3 else k);
               val \<leftarrow> (if k \<noteq> - 1 then strinsert 6 val (nat k) ''.'' else Some val);
               Some (Inr (val, vc830Data))
             }))"

text \<open>Lines 262 to 309, "Check status bytes".\<close>

definition statusBytes :: "byte list \<Rightarrow> Vc830 \<Rightarrow> (Vc830 \<times> labels) option" where
  "statusBytes buf vc830Data =
     do {
       let l = \<lparr>l_mode = [], l_prefix = [], l_unit = [], l_info = []\<rparr>;
       (b, l) \<leftarrow> checkInfo buf 1 5 ''AUTO'' INFO l;
       let vc830Data = vc830Data\<lparr>autoRangeActive := b\<rparr>;
       (b, l) \<leftarrow> checkInfo buf 1 4 ''DC'' MODE l;
       (b, l) \<leftarrow> checkInfo buf 1 3 ''AC'' MODE l;
       (b, l) \<leftarrow> checkInfo buf 1 2 ''REL'' MODE l;
       let vc830Data = vc830Data\<lparr>deltaActive := b\<rparr>;
       (b, l) \<leftarrow> checkInfo buf 1 1 ''HOLD'' MODE l;
       let vc830Data = vc830Data\<lparr>holdActive := b\<rparr>;
       (b, l) \<leftarrow> checkInfo buf 1 0 ''BPN'' NULL l;
       let vc830Data = vc830Data\<lparr>barGraphIsShown := b\<rparr>;
       (b, l) \<leftarrow> checkInfo buf 2 7 ''Diode'' INFO l;
       (b, l) \<leftarrow> checkInfo buf 2 6 ''Z2'' INFO l;
       (b, l) \<leftarrow> checkInfo buf 2 5 ''MAX'' INFO l;
       (b, l) \<leftarrow> checkInfo buf 2 4 ''MIN'' INFO l;
       (b, l) \<leftarrow> checkInfo buf 2 3 ''APO'' INFO l;
       (b, l) \<leftarrow> checkInfo buf 2 2 ''Bat'' INFO l;
       let vc830Data = vc830Data\<lparr>batteryWarning := b\<rparr>;
       (b, l) \<leftarrow> checkInfo buf 2 1 ''n'' PREFIX l;
       (b, l) \<leftarrow> checkInfo buf 2 0 ''Z3'' INFO l;
       (b, l) \<leftarrow> checkInfo buf 3 7 micro PREFIX l;
       (b, l) \<leftarrow> checkInfo buf 3 6 ''m'' PREFIX l;
       (b, l) \<leftarrow> checkInfo buf 3 5 ''k'' PREFIX l;
       (b, l) \<leftarrow> checkInfo buf 3 4 ''M'' PREFIX l;
       (b, l) \<leftarrow> checkInfo buf 3 3 ''Beep'' INFO l;
       (b, l) \<leftarrow> checkInfo buf 3 2 ''Diode'' INFO l;
       (b, l) \<leftarrow> checkInfo buf 3 1 ''%'' PREFIX l;
       (b, l) \<leftarrow> checkInfo buf 3 0 ''Z4'' INFO l;
       (b, l) \<leftarrow> checkInfo buf 4 7 ''V'' UNIT l;
       (b, l) \<leftarrow> checkInfo buf 4 6 ''A'' UNIT l;
       (b, l) \<leftarrow> checkInfo buf 4 5 ohm UNIT l;
       (b, l) \<leftarrow> checkInfo buf 4 4 ''hFE'' UNIT l;
       (b, l) \<leftarrow> checkInfo buf 4 3 ''Hz'' UNIT l;
       (b, l) \<leftarrow> checkInfo buf 4 2 ''F'' UNIT l;
       (b, l) \<leftarrow> checkInfo buf 4 1 (degree @ ''C'') UNIT l;
       (b, l) \<leftarrow> checkInfo buf 4 0 (degree @ ''F'') UNIT l;
       Some (vc830Data, l)
     }"

text \<open>Lines 311 to 316: \<^verbatim>\<open>multToSi\<close> as a function of the string \<^verbatim>\<open>prefix\<close>.\<close>

definition multToSi :: "string \<Rightarrow> double" where
  "multToSi pre =
     (let m = double_of_rat 1;
          m = (if pre = ''n'' then double_of_rat (1 / 1000000000) else m);
          m = (if pre = micro then double_of_rat (1 / 1000000) else m);
          m = (if pre = ''m'' then double_of_rat (1 / 1000) else m);
          m = (if pre = ''k'' then double_of_rat 1000 else m);
          m = (if pre = ''k'' then double_of_rat 1000000 else m)
      in m)"

text \<open>Line 333: \<^verbatim>\<open>while (*vz == '0' && *(vz + 1) != '.') vz++;\<close>\<close>

fun skipZeros :: "string \<Rightarrow> string" where
  "skipZeros [] = []"
| "skipZeros (c # cs) =
     (if c = CHR ''0'' \<and> (case cs of [] \<Rightarrow> True | d # _ \<Rightarrow> d \<noteq> CHR ''.'')
      then skipZeros cs else c # cs)"

text \<open>
  The locals of \<^verbatim>\<open>decodeFS9922Paket\<close> that its debug \<^verbatim>\<open>printf\<close> (line 345) lists, as they
  stand when the function starts to copy to the output structure.
\<close>

record locals =
  v_value :: string
  v_sign :: int
  v_labels :: labels
  v_bar :: byte
  v_vWithUnit :: string
  v_vSi :: double
  v_vSiWithUnit :: string

text \<open>
  Lines 311 to 343: the multiplier, the bar graph value, \<^verbatim>\<open>vSi\<close> and the two formatted
  strings \<^verbatim>\<open>vWithUnit\<close> and \<^verbatim>\<open>vSiWithUnit\<close>, arrays of 20 bytes each.
\<close>

definition formatValues :: "byte list \<Rightarrow> int \<Rightarrow> string \<Rightarrow> labels \<Rightarrow> locals option" where
  "formatValues buf sgn0 val l =
     do {
       let m = multToSi (l_prefix l);
       let bar = buf ! 11 AND 0x7f;
       let vSi = dmul (dmul (atof val) m) (double_of_int sgn0);
       let vWithUnit = [];
       vWithUnit \<leftarrow> (if sgn0 = - 1 then strcat 20 vWithUnit ''-'' else Some vWithUnit);
       let vz = skipZeros val;
       vWithUnit \<leftarrow> strcat 20 vWithUnit vz;
       vWithUnit \<leftarrow> strcat 20 vWithUnit '' '';
       vWithUnit \<leftarrow> strcat 20 vWithUnit (l_prefix l);
       vWithUnit \<leftarrow> strcat 20 vWithUnit (l_unit l);
       let vSiWithUnit = snprintf_f 20 vSi;
       let vSiWithUnit = trimZeros vSiWithUnit;
       vSiWithUnit \<leftarrow> strcat 20 vSiWithUnit '' '';
       vSiWithUnit \<leftarrow> strcat 20 vSiWithUnit (l_unit l);
       Some \<lparr>v_value = val, v_sign = sgn0, v_labels = l, v_bar = bar,
             v_vWithUnit = vWithUnit, v_vSi = vSi, v_vSiWithUnit = vSiWithUnit\<rparr>
     }"

text \<open>
  Lines 222 to 343. \<open>Inl\<close> is an early return (code and output struct), \<open>Inr\<close> the state
  reached at line 349. The struct the caller passed in is overwritten by \<^verbatim>\<open>memset\<close>
  before anything is read from it, and \<open>now\<close> is what \<^verbatim>\<open>gettimeofday\<close> stores.
\<close>

definition decodeBody ::
  "timeval \<Rightarrow> byte list \<Rightarrow> Vc830 \<Rightarrow> (int \<times> Vc830 + Vc830 \<times> locals) option" where
  "decodeBody now buf vc830Data0 =
     (let vc830Data = zeroed;
          vc830Data = vc830Data\<lparr>receivedAt := now\<rparr>
      in if buf ! 5 \<noteq> 0x20 \<or> buf ! 12 \<noteq> 0x0d \<or> buf ! 13 \<noteq> 0x0a
         then Some (Inl (- 1, vc830Data))
         else
           let sgn0 = (0 :: int);
               sgn0 = (if buf ! 0 = 0x2b then 1 else sgn0);
               sgn0 = (if buf ! 0 = 0x2d then - 1 else sgn0)
           in if sgn0 = 0 then Some (Inl (- 2, vc830Data))
              else
                do {
                  r \<leftarrow> readValue buf vc830Data;
                  (case r of
                     Inl ret \<Rightarrow> Some (Inl (ret, vc830Data))
                   | Inr (val, vc830Data) \<Rightarrow>
                       do {
                         (vc830Data, l) \<leftarrow> statusBytes buf vc830Data;
                         v \<leftarrow> formatValues buf sgn0 val l;
                         Some (Inr (vc830Data, v))
                       })
                })"

text \<open>Lines 349 to 363, "Copy to output structure".\<close>

definition copyOut :: "Vc830 \<Rightarrow> locals \<Rightarrow> (int \<times> Vc830) option" where
  "copyOut vc830Data v =
     do {
       let vc830Data = vc830Data\<lparr>sign := (if v_sign v = 1 then CHR ''+'' else CHR ''-'')\<rparr>;
       let vc830Data = vc830Data\<lparr>barGraph := uint (v_bar v)\<rparr>;
       s \<leftarrow> strcpy 6 (v_value v);
       let vc830Data = vc830Data\<lparr>rawRisplay := s\<rparr>;
       s \<leftarrow> strcpy BUFFER_LEN (l_mode (v_labels v));
       let vc830Data = vc830Data\<lparr>mode := s\<rparr>;
       s \<leftarrow> strcpy BUFFER_LEN (l_info (v_labels v));
       let vc830Data = vc830Data\<lparr>info := s\<rparr>;
       s \<leftarrow> strcpy BUFFER_LEN (l_unit (v_labels v));
       let vc830Data = vc830Data\<lparr>unit := s\<rparr>;
       s \<leftarrow> strcpy BUFFER_LEN (l_prefix (v_labels v));
       let vc830Data = vc830Data\<lparr>prefix := s\<rparr>;
       s \<leftarrow> strcpy BUFFER_LEN (l_prefix (v_labels v));
       s \<leftarrow> strcat BUFFER_LEN s (l_unit (v_labels v));
       let vc830Data = vc830Data\<lparr>fullUnit := s\<rparr>;
       s \<leftarrow> strcpy BUFFER_LEN (v_vWithUnit v);
       let vc830Data = vc830Data\<lparr>formatedValue := s\<rparr>;
       s \<leftarrow> strcpy BUFFER_LEN (v_vSiWithUnit v);
       let vc830Data = vc830Data\<lparr>formatedSiValue := s\<rparr>;
       Some (0, vc830Data)
     }"

text \<open>
  \<^verbatim>\<open>int decodeFS9922Paket(byte buf[], struct Vc830* vc830Data)\<close>: the result is the
  return code and the struct behind \<^verbatim>\<open>vc830Data\<close> after the call; \<open>None\<close> is a write past
  the end of an array, where C defines no result.
\<close>

definition decodeFS9922Paket :: "timeval \<Rightarrow> byte list \<Rightarrow> Vc830 \<Rightarrow> (int \<times> Vc830) option" where
  "decodeFS9922Paket now buf vc830Data0 =
     do {
       r \<leftarrow> decodeBody now buf vc830Data0;
       (case r of
          Inl early \<Rightarrow> Some early
        | Inr (vc830Data, v) \<Rightarrow> copyOut vc830Data v)
     }"

text \<open>
  The local \<^verbatim>\<open>vSi\<close> as a function of the call, where the call reaches line 324: the
  record has no field for it.
\<close>

definition siValue :: "timeval \<Rightarrow> byte list \<Rightarrow> Vc830 \<Rightarrow> double option" where
  "siValue now buf vc830Data0 =
     (case decodeBody now buf vc830Data0 of
        Some (Inr (vc830Data, v)) \<Rightarrow> Some (v_vSi v)
      | _ \<Rightarrow> None)"

section \<open>read14BytesPaket and the sampling loop\<close>

text \<open>
  What one turn of the \<^verbatim>\<open>while (1)\<close> loop can meet: \<^verbatim>\<open>select\<close> fails (\<open>-1\<close>), times
  out after 100 ms (\<open>0\<close>), or reports the descriptor readable, and then \<^verbatim>\<open>read\<close> of one
  byte returns \<open>0\<close> (end of a capture file), a negative value, or the byte.
\<close>

datatype io = SelectFailed | SelectTimeout | ReadEOF | ReadFailed | ReadByte byte

text \<open>\<^verbatim>\<open>#define END_OF_CAPTURE_FILE 142857\<close>\<close>

definition END_OF_CAPTURE_FILE :: int where
  "END_OF_CAPTURE_FILE = 142857"

text \<open>
  The loop of \<^verbatim>\<open>read14BytesPaket\<close> over the events that the descriptor delivers, with
  the local \<^verbatim>\<open>bufIdx\<close> and the caller's \<^verbatim>\<open>readBuffer\<close>. The result is the return code, the
  buffer and the events not yet consumed; \<open>None\<close> when the events end while the loop is
  still waiting, so the call has not returned.
\<close>

fun read14Loop :: "io list \<Rightarrow> nat \<Rightarrow> byte list \<Rightarrow> (int \<times> byte list \<times> io list) option" where
  "read14Loop [] bufIdx readBuffer = None"
| "read14Loop (SelectFailed # es) bufIdx readBuffer = Some (- 1, readBuffer, es)"
| "read14Loop (SelectTimeout # es) bufIdx readBuffer = read14Loop es 0 readBuffer"
| "read14Loop (ReadEOF # es) bufIdx readBuffer = Some (END_OF_CAPTURE_FILE, readBuffer, es)"
| "read14Loop (ReadFailed # es) bufIdx readBuffer =
     (if bufIdx = 14 then Some (0, readBuffer, es) else read14Loop es bufIdx readBuffer)"
| "read14Loop (ReadByte b # es) bufIdx readBuffer =
     (let readBuffer = readBuffer[bufIdx := b];
          bufIdx = bufIdx + 1
      in if bufIdx = 14 then Some (0, readBuffer, es) else read14Loop es bufIdx readBuffer)"

definition read14BytesPaket :: "io list \<Rightarrow> byte list \<Rightarrow> (int \<times> byte list \<times> io list) option" where
  "read14BytesPaket es readBuffer = read14Loop es 0 readBuffer"

text \<open>
  The loop of \<^verbatim>\<open>main\<close>, \<^verbatim>\<open>while (loop < count)\<close>, reduced to the frames it hands to
  \<^verbatim>\<open>decodeFS9922Paket\<close>: the first 14 bytes of \<^verbatim>\<open>readBuffer\<close> after each call that
  returns \<open>0\<close>. Any other return code ends the loop.
\<close>

primrec sampledFrames :: "nat \<Rightarrow> io list \<Rightarrow> byte list \<Rightarrow> byte list list" where
  "sampledFrames 0 es readBuffer = []"
| "sampledFrames (Suc count) es readBuffer =
     (case read14BytesPaket es readBuffer of
        None \<Rightarrow> []
      | Some (ret, readBuffer, es) \<Rightarrow>
          if ret = 0 then take 14 readBuffer # sampledFrames count es readBuffer else [])"

section \<open>Frames and streams used as examples\<close>

text \<open>
  Sign \<open>+\<close>, digits \<open>1234\<close>, a space, point code \<open>0x33\<close>, SB1 with AUTO and DC, SB4 with V,
  bar graph 0, CR LF.
\<close>

definition example_frame :: "byte list" where
  "example_frame =
     [0x2b, 0x31, 0x32, 0x33, 0x34, 0x20, 0x33, 0x30, 0x00, 0x00, 0x80, 0x00, 0x0d, 0x0a]"

text \<open>The example frame with \<open>0x21\<close> in place of the space at byte 5.\<close>

definition space_missing_frame :: "byte list" where
  "space_missing_frame =
     [0x2b, 0x31, 0x32, 0x33, 0x34, 0x21, 0x33, 0x30, 0x00, 0x00, 0x80, 0x00, 0x0d, 0x0a]"

text \<open>The example frame with a space in place of the sign, and with \<open>A\<close> as first digit.\<close>

definition sign_missing_frame :: "byte list" where
  "sign_missing_frame =
     [0x20, 0x31, 0x32, 0x33, 0x34, 0x20, 0x33, 0x30, 0x00, 0x00, 0x80, 0x00, 0x0d, 0x0a]"

definition digit_missing_frame :: "byte list" where
  "digit_missing_frame =
     [0x2b, 0x41, 0x32, 0x33, 0x34, 0x20, 0x33, 0x30, 0x00, 0x00, 0x80, 0x00, 0x0d, 0x0a]"

text \<open>A record as an earlier successful call leaves it.\<close>

definition previous_record :: Vc830 where
  "previous_record =
     \<lparr>receivedAt = (1, 0), rawRisplay = ''123.4'', sign = CHR ''+'', mode = ''DC'', unit = ''V'',
      prefix = [], fullUnit = ''V'', info = ''AUTO'', barGraph = 0, barGraphIsShown = False,
      batteryWarning = False, autoRangeActive = True, holdActive = False,
      deltaActive = False, overflow = False, formatedValue = ''123.4 V'',
      formatedSiValue = ''123.4 V''\<rparr>"


text \<open>
  \<open>+1234\<close> with no decimal point, SB3 with only bit 5 (k) and SB4 with only bit 5 (ohm):
  a reading of 1234 kilo-ohm.
\<close>

definition kilo_frame :: "byte list" where
  "kilo_frame =
     [0x2b, 0x31, 0x32, 0x33, 0x34, 0x20, 0x30, 0x00, 0x00, 0x20, 0x20, 0x00, 0x0d, 0x0a]"

text \<open>\<open>+0000\<close> with no decimal point, DC and V: a reading of zero.\<close>

definition zero_reading_frame :: "byte list" where
  "zero_reading_frame =
     [0x2b, 0x30, 0x30, 0x30, 0x30, 0x20, 0x30, 0x10, 0x00, 0x00, 0x80, 0x00, 0x0d, 0x0a]"

text \<open>The overflow sentinel \<open>?0:?\<close> with sign \<open>+\<close> and every bit of the four status bytes set.\<close>

definition sentinel_all_bits_frame :: "byte list" where
  "sentinel_all_bits_frame =
     [0x2b, 0x3f, 0x30, 0x3a, 0x3f, 0x20, 0x30, 0xff, 0xff, 0xff, 0xff, 0x00, 0x0d, 0x0a]"

text \<open>The overflow sentinel with sign \<open>-\<close>, SB1 to SB3 zero and every bit of SB4 set.\<close>

definition sentinel_all_units_frame :: "byte list" where
  "sentinel_all_units_frame =
     [0x2d, 0x3f, 0x30, 0x3a, 0x3f, 0x20, 0x30, 0x00, 0x00, 0x00, 0xff, 0x00, 0x0d, 0x0a]"

text \<open>The example frame with no bit of SB1 set and every bit of SB4 set: eight units.\<close>

definition digits_all_units_frame :: "byte list" where
  "digits_all_units_frame =
     [0x2b, 0x31, 0x32, 0x33, 0x34, 0x20, 0x33, 0x00, 0x00, 0x00, 0xff, 0x00, 0x0d, 0x0a]"

text \<open>The overflow sentinel with sign \<open>-\<close>, AUTO, the prefix k, the unit ohm and bar graph 12.\<close>

definition sentinel_frame :: "byte list" where
  "sentinel_frame =
     [0x2d, 0x3f, 0x30, 0x3a, 0x3f, 0x20, 0x31, 0x20, 0x00, 0x20, 0x20, 0x0c, 0x0d, 0x0a]"

text \<open>
  Twenty bytes \<open>1, ..., 20\<close>, one \<^verbatim>\<open>select\<close> timeout, fourteen bytes \<open>101, ..., 114\<close>, then
  the end of the capture; and a \<^verbatim>\<open>readBuffer\<close> of \<open>BUFFER_LEN\<close> zero bytes.
\<close>

definition stalled_stream :: "io list" where
  "stalled_stream =
     map ReadByte [1, 2, 3, 4, 5, 6, 7, 8, 9, 10, 11, 12, 13, 14, 15, 16, 17, 18, 19, 20]
     @ [SelectTimeout]
     @ map ReadByte [101, 102, 103, 104, 105, 106, 107, 108, 109, 110, 111, 112, 113, 114]
     @ [ReadEOF]"

definition empty_buffer :: "byte list" where
  "empty_buffer = replicate BUFFER_LEN 0"

section \<open>Auxiliary functions for the proofs\<close>

text \<open>\<open>readBuffer\<close> after the bytes \<open>bs\<close> have been read into it from index \<open>i\<close> on.\<close>

fun store :: "byte list \<Rightarrow> nat \<Rightarrow> byte list \<Rightarrow> byte list" where
  "store rb i [] = rb"
| "store rb i (b # bs) = store (rb[i := b]) (i + 1) bs"

text \<open>
  The 30 calls of \<^verbatim>\<open>checkInfo\<close> as a table, in the order of the source; the calls run
  from the table; and the room that an array needs for all the labels appended to it.
\<close>

definition statusTable :: "(nat \<times> nat \<times> string \<times> out) list" where
  "statusTable =
     [(1, 5, ''AUTO'', INFO), (1, 4, ''DC'', MODE), (1, 3, ''AC'', MODE), (1, 2, ''REL'', MODE),
      (1, 1, ''HOLD'', MODE), (1, 0, ''BPN'', NULL),
      (2, 7, ''Diode'', INFO), (2, 6, ''Z2'', INFO), (2, 5, ''MAX'', INFO), (2, 4, ''MIN'', INFO),
      (2, 3, ''APO'', INFO), (2, 2, ''Bat'', INFO), (2, 1, ''n'', PREFIX), (2, 0, ''Z3'', INFO),
      (3, 7, micro, PREFIX), (3, 6, ''m'', PREFIX), (3, 5, ''k'', PREFIX), (3, 4, ''M'', PREFIX),
      (3, 3, ''Beep'', INFO), (3, 2, ''Diode'', INFO), (3, 1, ''%'', PREFIX), (3, 0, ''Z4'', INFO),
      (4, 7, ''V'', UNIT), (4, 6, ''A'', UNIT), (4, 5, ohm, UNIT), (4, 4, ''hFE'', UNIT),
      (4, 3, ''Hz'', UNIT), (4, 2, ''F'', UNIT), (4, 1, degree @ ''C'', UNIT),
      (4, 0, degree @ ''F'', UNIT)]"

fun runTable :: "byte list \<Rightarrow> (nat \<times> nat \<times> string \<times> out) list \<Rightarrow> labels \<Rightarrow> labels option" where
  "runTable buf [] l = Some l"
| "runTable buf ((statusByte, statusBit, label, out) # t) l =
     do { (b, l) \<leftarrow> checkInfo buf statusByte statusBit label out l; runTable buf t l }"

fun need :: "out \<Rightarrow> (nat \<times> nat \<times> string \<times> out) list \<Rightarrow> nat" where
  "need out [] = 0"
| "need out ((statusByte, statusBit, label, out') # t) =
     (if out' = out then length label + 1 else 0) + need out t"


section \<open>Facts about the model\<close>

subsection \<open>Bounded string operations and the parts of the decoder\<close>

lemma strcpy_Some: "strcpy cap s = Some t \<Longrightarrow> t = s \<and> length s < cap"
  by (auto simp: strcpy_def split: if_splits)

lemma strcat_Some: "strcat cap d s = Some t \<Longrightarrow> t = d @ s \<and> length d + length s < cap"
  by (auto simp: strcat_def split: if_splits)

lemma copyOut_ret: "copyOut vc v = Some (ret, r) \<Longrightarrow> ret = 0"
  by (auto simp: copyOut_def Let_def bind_eq_Some_conv)

lemma readValue_Inl: "readValue buf vc = Some (Inl ret) \<Longrightarrow> ret = - 3"
  by (auto simp: readValue_def Let_def bind_eq_Some_conv split: if_splits option.splits)

lemma statusBytes_vc:
  "statusBytes buf vc = map_option (\<lambda>(c, l). (vc\<lparr>autoRangeActive := autoRangeActive c,
      deltaActive := deltaActive c, holdActive := holdActive c,
      barGraphIsShown := barGraphIsShown c, batteryWarning := batteryWarning c\<rparr>, l))
    (statusBytes buf zeroed)"
  unfolding statusBytes_def Let_def
  by (simp split: Option.bind_splits prod.splits)

lemma statusBytes_receivedAt:
  "statusBytes buf (vc\<lparr>receivedAt := t\<rparr>) =
     map_option (\<lambda>(c, l). (c\<lparr>receivedAt := t\<rparr>, l)) (statusBytes buf vc)"
  by (subst statusBytes_vc, subst (2) statusBytes_vc, cases "statusBytes buf zeroed") auto

lemma readValue_receivedAt:
  "readValue buf (vc\<lparr>receivedAt := t\<rparr>) =
     map_option (map_sum id (\<lambda>(val, c). (val, c\<lparr>receivedAt := t\<rparr>))) (readValue buf vc)"
  by (simp add: readValue_def Let_def split: Option.bind_splits option.splits)

lemma copyOut_receivedAt:
  "copyOut (vc\<lparr>receivedAt := t\<rparr>) v =
     map_option (\<lambda>(ret, c). (ret, c\<lparr>receivedAt := t\<rparr>)) (copyOut vc v)"
  by (simp add: copyOut_def Let_def split: Option.bind_splits)

lemma status_format_receivedAt:
  "do { (c, l) \<leftarrow> statusBytes buf (vc\<lparr>receivedAt := t\<rparr>);
        v \<leftarrow> formatValues buf s val l;
        Some (Inr (c, v) :: int \<times> Vc830 + Vc830 \<times> locals) } =
   map_option (map_sum (\<lambda>(ret, r). (ret, r\<lparr>receivedAt := t\<rparr>))
                       (\<lambda>(r, v). (r\<lparr>receivedAt := t\<rparr>, v)))
     (do { (c, l) \<leftarrow> statusBytes buf vc;
           v \<leftarrow> formatValues buf s val l;
           Some (Inr (c, v)) })"
  by (cases "statusBytes buf vc")
     (auto simp: statusBytes_receivedAt split: Option.bind_splits)

lemma decodeBody_receivedAt:
  "decodeBody now buf old =
     map_option (map_sum (\<lambda>(ret, r). (ret, r\<lparr>receivedAt := now\<rparr>))
                         (\<lambda>(r, v). (r\<lparr>receivedAt := now\<rparr>, v)))
       (decodeBody now' buf old')"
proof -
  let ?Z = "zeroed\<lparr>receivedAt := now'\<rparr>"
  have z: "zeroed\<lparr>receivedAt := now\<rparr> = ?Z\<lparr>receivedAt := now\<rparr>"
    by simp
  have rv: "readValue buf (?Z\<lparr>receivedAt := now\<rparr>) =
      map_option (map_sum id (\<lambda>(val, c). (val, c\<lparr>receivedAt := now\<rparr>))) (readValue buf ?Z)"
    by (rule readValue_receivedAt)
  show ?thesis
  proof (cases "readValue buf ?Z")
    case None
    then show ?thesis
      unfolding decodeBody_def Let_def z rv by simp
  next
    case (Some r)
    show ?thesis
    proof (cases r)
      case (Inl ret)
      with Some show ?thesis
        unfolding decodeBody_def Let_def z rv by simp
    next
      case (Inr p)
      obtain val c where p: "p = (val, c)"
        by (cases p)
      from Some Inr p show ?thesis
        unfolding decodeBody_def Let_def z rv
        by (simp add: status_format_receivedAt)
    qed
  qed
qed

lemma decode_receivedAt:
  "decodeFS9922Paket now buf old =
     map_option (\<lambda>(ret, r). (ret, r\<lparr>receivedAt := now\<rparr>)) (decodeFS9922Paket now' buf old')"
  unfolding decodeFS9922Paket_def
  apply (subst decodeBody_receivedAt [of now buf old now' old'])
  apply (cases "decodeBody now' buf old'")
   apply simp
  subgoal for r
    apply (cases r)
     apply (auto simp: copyOut_receivedAt)
    done
  done


lemma copyOut_Some:
  "copyOut c v = Some (ret, r) \<Longrightarrow>
     ret = 0 \<and>
     r = c\<lparr>sign := (if v_sign v = 1 then CHR ''+'' else CHR ''-''),
           barGraph := uint (v_bar v), rawRisplay := v_value v,
           mode := l_mode (v_labels v), info := l_info (v_labels v),
           unit := l_unit (v_labels v), prefix := l_prefix (v_labels v),
           fullUnit := l_prefix (v_labels v) @ l_unit (v_labels v),
           formatedValue := v_vWithUnit v, formatedSiValue := v_vSiWithUnit v\<rparr>"
  by (auto simp: copyOut_def Let_def bind_eq_Some_conv dest!: strcpy_Some strcat_Some)

lemma formatValues_Some:
  "formatValues buf s val l = Some v \<Longrightarrow>
     v = \<lparr>v_value = val, v_sign = s, v_labels = l, v_bar = buf ! 11 AND 0x7f,
          v_vWithUnit = (if s = - 1 then ''-'' else []) @ skipZeros val @ '' '' @ l_prefix l @ l_unit l,
          v_vSi = dmul (dmul (atof val) (multToSi (l_prefix l))) (double_of_int s),
          v_vSiWithUnit =
            trimZeros (snprintf_f 20 (dmul (dmul (atof val) (multToSi (l_prefix l))) (double_of_int s)))
              @ '' '' @ l_unit l\<rparr>"
  by (auto simp: formatValues_def Let_def bind_eq_Some_conv strcat_def split: if_splits)

lemma statusBytes_overflow:
  "statusBytes buf c0 = Some (c, l) \<Longrightarrow> overflow c = overflow c0 \<and> receivedAt c = receivedAt c0"
  by (subst (asm) statusBytes_vc) auto

lemma decode_Some_0:
  assumes "decodeFS9922Paket now buf old = Some (0, r)"
  shows "\<exists>val c0 c l v.
     buf ! 5 = 0x20 \<and> buf ! 12 = 0x0d \<and> buf ! 13 = 0x0a \<and> (buf ! 0 = 0x2b \<or> buf ! 0 = 0x2d) \<and>
     readValue buf (zeroed\<lparr>receivedAt := now\<rparr>) = Some (Inr (val, c0)) \<and>
     statusBytes buf c0 = Some (c, l) \<and>
     formatValues buf (if buf ! 0 = 0x2d then - 1 else 1) val l = Some v \<and>
     copyOut c v = Some (0, r)"
  using assms
  by (auto simp: decodeFS9922Paket_def decodeBody_def Let_def bind_eq_Some_conv
      split: if_splits sum.splits prod.splits dest: readValue_Inl)

lemma readDigits_4:
  "readDigits buf 0 [] =
     (if isdigit (buf ! 1) \<and> isdigit (buf ! 2) \<and> isdigit (buf ! 3) \<and> isdigit (buf ! 4)
      then Some [to_char (buf ! 1), to_char (buf ! 2), to_char (buf ! 3), to_char (buf ! 4)]
      else None)"
  by (simp add: readDigits.simps eval_nat_numeral)



subsection \<open>The label arrays never overrun\<close>

lemma statusBytes_labels:
  "map_option snd (statusBytes buf vc) =
     runTable buf statusTable \<lparr>l_mode = [], l_prefix = [], l_unit = [], l_info = []\<rparr>"
  unfolding statusBytes_def statusTable_def Let_def
  by (simp split: Option.bind_splits prod.splits)

lemma checkInfo_total:
  assumes "out \<noteq> NULL \<longrightarrow> length (deref out l) + length label + 1 < BUFFER_LEN"
  shows "\<exists>b l'. checkInfo buf statusByte statusBit label out l = Some (b, l') \<and>
     length (l_mode l') \<le> length (l_mode l) + (if out = MODE then length label + 1 else 0) \<and>
     length (l_prefix l') \<le> length (l_prefix l) + (if out = PREFIX then length label + 1 else 0) \<and>
     length (l_unit l') \<le> length (l_unit l) + (if out = UNIT then length label + 1 else 0) \<and>
     length (l_info l') \<le> length (l_info l) + (if out = INFO then length label + 1 else 0)"
  using assms by (cases out) (auto simp: checkInfo_def strcat_def)

lemma runTable_total:
  "length (l_mode l) + need MODE t < BUFFER_LEN \<Longrightarrow>
   length (l_prefix l) + need PREFIX t < BUFFER_LEN \<Longrightarrow>
   length (l_unit l) + need UNIT t < BUFFER_LEN \<Longrightarrow>
   length (l_info l) + need INFO t < BUFFER_LEN \<Longrightarrow>
     \<exists>l'. runTable buf t l = Some l' \<and>
       length (l_mode l') \<le> length (l_mode l) + need MODE t \<and>
       length (l_prefix l') \<le> length (l_prefix l) + need PREFIX t \<and>
       length (l_unit l') \<le> length (l_unit l) + need UNIT t \<and>
       length (l_info l') \<le> length (l_info l) + need INFO t"
proof (induction t arbitrary: l)
  case Nil
  then show ?case by simp
next
  case (Cons e t)
  obtain sB sb label out where e: "e = (sB, sb, label, out)"
    by (cases e)
  have "out \<noteq> NULL \<longrightarrow> length (deref out l) + length label + 1 < BUFFER_LEN"
    using Cons.prems e by (cases out) auto
  from checkInfo_total [OF this, of buf sB sb] obtain b l' where
    c: "checkInfo buf sB sb label out l = Some (b, l')" and
    len: "length (l_mode l') \<le> length (l_mode l) + (if out = MODE then length label + 1 else 0)"
      "length (l_prefix l') \<le> length (l_prefix l) + (if out = PREFIX then length label + 1 else 0)"
      "length (l_unit l') \<le> length (l_unit l) + (if out = UNIT then length label + 1 else 0)"
      "length (l_info l') \<le> length (l_info l) + (if out = INFO then length label + 1 else 0)"
    by blast
  have "\<exists>l''. runTable buf t l' = Some l'' \<and>
       length (l_mode l'') \<le> length (l_mode l') + need MODE t \<and>
       length (l_prefix l'') \<le> length (l_prefix l') + need PREFIX t \<and>
       length (l_unit l'') \<le> length (l_unit l') + need UNIT t \<and>
       length (l_info l'') \<le> length (l_info l') + need INFO t"
    using Cons.prems len e by (intro Cons.IH) (auto split: if_splits)
  then obtain l'' where r: "runTable buf t l' = Some l''"
    and len': "length (l_mode l'') \<le> length (l_mode l') + need MODE t"
       "length (l_prefix l'') \<le> length (l_prefix l') + need PREFIX t"
       "length (l_unit l'') \<le> length (l_unit l') + need UNIT t"
       "length (l_info l'') \<le> length (l_info l') + need INFO t"
    by blast
  from c e r have "runTable buf (e # t) l = Some l''"
    by simp
  moreover from len len' e have
    "length (l_mode l'') \<le> length (l_mode l) + need MODE (e # t)"
    "length (l_prefix l'') \<le> length (l_prefix l) + need PREFIX (e # t)"
    "length (l_unit l'') \<le> length (l_unit l) + need UNIT (e # t)"
    "length (l_info l'') \<le> length (l_info l) + need INFO (e # t)"
    by (auto split: if_splits)
  ultimately show ?case
    by blast
qed

lemma statusBytes_total:
  "\<exists>c l. statusBytes buf vc = Some (c, l) \<and> length (l_mode l) < BUFFER_LEN \<and>
     length (l_prefix l) < BUFFER_LEN \<and> length (l_unit l) < BUFFER_LEN \<and>
     length (l_info l) < BUFFER_LEN"
proof -
  have "\<exists>l'. runTable buf statusTable \<lparr>l_mode = [], l_prefix = [], l_unit = [], l_info = []\<rparr> = Some l' \<and>
       length (l_mode l') \<le> length (l_mode \<lparr>l_mode = [], l_prefix = [], l_unit = [], l_info = []\<rparr>) + need MODE statusTable \<and>
       length (l_prefix l') \<le> length (l_prefix \<lparr>l_mode = [], l_prefix = [], l_unit = [], l_info = []\<rparr>) + need PREFIX statusTable \<and>
       length (l_unit l') \<le> length (l_unit \<lparr>l_mode = [], l_prefix = [], l_unit = [], l_info = []\<rparr>) + need UNIT statusTable \<and>
       length (l_info l') \<le> length (l_info \<lparr>l_mode = [], l_prefix = [], l_unit = [], l_info = []\<rparr>) + need INFO statusTable"
    by (rule runTable_total)
       (simp_all add: statusTable_def BUFFER_LEN_def micro_def ohm_def degree_def)
  then obtain l' where
    r: "runTable buf statusTable \<lparr>l_mode = [], l_prefix = [], l_unit = [], l_info = []\<rparr> = Some l'"
    and len: "length (l_mode l') \<le> need MODE statusTable" "length (l_prefix l') \<le> need PREFIX statusTable"
      "length (l_unit l') \<le> need UNIT statusTable" "length (l_info l') \<le> need INFO statusTable"
    by auto
  have n: "need MODE statusTable < BUFFER_LEN" "need PREFIX statusTable < BUFFER_LEN"
    "need UNIT statusTable < BUFFER_LEN" "need INFO statusTable < BUFFER_LEN"
    by (simp_all add: statusTable_def BUFFER_LEN_def micro_def ohm_def degree_def)
  from r statusBytes_labels [of buf vc] obtain c where "statusBytes buf vc = Some (c, l')"
    by (cases "statusBytes buf vc") auto
  with len n show ?thesis
    by auto
qed

lemma statusBytes_Some_length:
  assumes "statusBytes buf vc = Some (c, l)"
  shows "length (l_mode l) < BUFFER_LEN \<and> length (l_prefix l) < BUFFER_LEN \<and>
     length (l_unit l) < BUFFER_LEN \<and> length (l_info l) < BUFFER_LEN"
  using statusBytes_total [of buf vc] assms by auto

subsection \<open>Every frame that passes the gates\<close>

lemma readValue_Inr_length:
  "readValue buf c = Some (Inr (val, c')) \<Longrightarrow> length val < 6"
  by (auto simp: readValue_def readDigits_4 Let_def strinsert_def strcpy_def bind_eq_Some_conv
      split: if_splits option.splits)

lemma readValue_sentinel:
  "buf ! 1 = 0x3f \<Longrightarrow> buf ! 2 = 0x30 \<Longrightarrow> buf ! 3 = 0x3a \<Longrightarrow> buf ! 4 = 0x3f \<Longrightarrow>
     readValue buf c = Some (Inr (''OVF'', c\<lparr>overflow := True\<rparr>))"
  by (simp add: readValue_def strcpy_def)

lemma decode_passed:
  assumes "buf ! 5 = 0x20" and "buf ! 12 = 0x0d" and "buf ! 13 = 0x0a"
    and "buf ! 0 = 0x2b \<or> buf ! 0 = 0x2d"
    and rv: "readValue buf (zeroed\<lparr>receivedAt := now\<rparr>) = Some (Inr (val, c0))"
    and sb: "statusBytes buf c0 = Some (c, l)"
  shows "decodeFS9922Paket now buf old =
     (let s = (if buf ! 0 = 0x2d then - 1 else 1 :: int);
          vSi = dmul (dmul (atof val) (multToSi (l_prefix l))) (double_of_int s);
          shown = (if s = - 1 then ''-'' else []) @ skipZeros val @ '' '' @ l_prefix l @ l_unit l;
          si = trimZeros (snprintf_f 20 vSi) @ '' '' @ l_unit l
      in if length shown < 20 \<and> length si < 20
         then Some (0, c\<lparr>sign := (if s = 1 then CHR ''+'' else CHR ''-''),
                 barGraph := uint (buf ! 11 AND 0x7f), rawRisplay := val,
                 mode := l_mode l, info := l_info l, unit := l_unit l, prefix := l_prefix l,
                 fullUnit := l_prefix l @ l_unit l, formatedValue := shown,
                 formatedSiValue := si\<rparr>)
         else None)"
proof -
  have v: "length val < 6"
    using rv by (rule readValue_Inr_length)
  have len: "length (l_mode l) < BUFFER_LEN" "length (l_prefix l) < BUFFER_LEN"
    "length (l_unit l) < BUFFER_LEN" "length (l_info l) < BUFFER_LEN"
    using statusBytes_Some_length [OF sb] by auto
  show ?thesis
    using assms(1-4) v len
    unfolding decodeFS9922Paket_def decodeBody_def Let_def
    by (auto simp: rv sb formatValues_def copyOut_def strcat_def strcpy_def Let_def BUFFER_LEN_def)
qed

lemma atof_OVF: "atof ''OVF'' = Double False 0"
  by code_simp

lemma round_double_0: "round_double 0 = 0"
  by (simp add: round_double_def)

lemma negative_multToSi: "\<not> negative (multToSi p)"
  by (simp add: multToSi_def Let_def double_of_rat_def)

lemma vSi_OVF:
  "dmul (dmul (atof ''OVF'') (multToSi p)) (double_of_int s) = Double (s < 0) 0"
  by (simp add: atof_OVF dmul_def negative_multToSi round_double_0 double_of_int_def)

lemma si_text_zero:
  "trimZeros (snprintf_f 20 (Double False 0)) = ''0.0''"
  "trimZeros (snprintf_f 20 (Double True 0)) = ''-0.0''"
  by code_simp+


lemma skipZeros_keeps_digit_before_point:
  "d \<noteq> CHR ''.'' \<Longrightarrow>
     skipZeros (replicate n (CHR ''0'') @ d # CHR ''.'' # fs) = d # CHR ''.'' # fs"
  by (induction n) (auto split: list.splits)

lemma skipZeros_all_zeros: "skipZeros (replicate n (CHR ''0'')) = []"
  by (induction n) (auto split: list.splits)


subsection \<open>The example frames, evaluated\<close>

lemma example_frame_eval:
  "decodeFS9922Paket now example_frame old =
     Some (0, \<lparr>receivedAt = now, rawRisplay = ''123.4'', sign = CHR ''+'',
         mode = ''DC'', unit = ''V'', prefix = [], fullUnit = ''V'',
         info = ''AUTO'', barGraph = 0, barGraphIsShown = False,
         batteryWarning = False, autoRangeActive = True, holdActive = False,
         deltaActive = False, overflow = False, formatedValue = ''123.4 V'',
         formatedSiValue = ''123.4 V''\<rparr>)"
  by code_simp

lemma space_missing_eval:
  "decodeFS9922Paket now space_missing_frame old = Some (- 1, zeroed\<lparr>receivedAt := now\<rparr>)"
  by code_simp


lemma sentinel_all_bits_eval: "decodeFS9922Paket now sentinel_all_bits_frame old = None"
  by code_simp

lemma sentinel_all_units_eval: "decodeFS9922Paket now sentinel_all_units_frame old = None"
  by code_simp

lemma digits_all_units_eval: "decodeFS9922Paket now digits_all_units_frame old = None"
  by code_simp

lemma zero_reading_eval:
  "decodeFS9922Paket now zero_reading_frame old =
     Some (0, \<lparr>receivedAt = now, rawRisplay = ''0000'', sign = CHR ''+'',
         mode = ''DC'', unit = ''V'', prefix = [], fullUnit = ''V'',
         info = [], barGraph = 0, barGraphIsShown = False,
         batteryWarning = False, autoRangeActive = False, holdActive = False,
         deltaActive = False, overflow = False, formatedValue = '' V'',
         formatedSiValue = ''0.0 V''\<rparr>)"
  by code_simp

lemma kilo_eval:
  "siValue now kilo_frame old = Some (Double False 1234000000)"
  by code_simp

lemma stalled_eval:
  "sampledFrames 10 stalled_stream empty_buffer =
     [[1, 2, 3, 4, 5, 6, 7, 8, 9, 10, 11, 12, 13, 14],
      [101, 102, 103, 104, 105, 106, 107, 108, 109, 110, 111, 112, 113, 114]]"
  by code_simp

lemma example_siValue_eval:
  "siValue now example_frame old = Some (double_of_rat (1234 / 10))"
  by code_simp

lemma example_siValue_near:
  "\<bar>rat_of_double (double_of_rat (1234 / 10)) - 1234 / 10\<bar> < 1 / 10 ^ 13"
  by code_simp

subsection \<open>read14Loop over runs of bytes and of timeouts\<close>

lemma length_store [simp]: "length (store rb i bs) = length rb"
  by (induction bs arbitrary: rb i) auto

lemma store_conv:
  "i + length bs \<le> length rb \<Longrightarrow> store rb i bs = take i rb @ bs @ drop (i + length bs) rb"
proof (induction bs arbitrary: rb i)
  case Nil
  then show ?case by simp
next
  case (Cons b bs)
  then have "i < length rb" by simp
  with Cons show ?case
    by (simp add: upd_conv_take_nth_drop take_Suc_conv_app_nth add.commute)
qed

lemma take_store: "length bs \<le> length rb \<Longrightarrow> take (length bs) (store rb 0 bs) = bs"
  by (simp add: store_conv)

lemma read14Loop_bytes_lt:
  "i + length bs < 14 \<Longrightarrow>
     read14Loop (map ReadByte bs @ es) i rb = read14Loop es (i + length bs) (store rb i bs)"
  by (induction bs arbitrary: i rb) (auto simp: Let_def)

lemma read14Loop_bytes_eq:
  "i + length bs = 14 \<Longrightarrow> bs \<noteq> [] \<Longrightarrow>
     read14Loop (map ReadByte bs @ es) i rb = Some (0, store rb i bs, es)"
proof (induction bs arbitrary: i rb)
  case Nil
  then show ?case by simp
next
  case (Cons b bs)
  show ?case
  proof (cases "bs = []")
    case True
    with Cons.prems show ?thesis by (simp add: Let_def)
  next
    case False
    with Cons.prems have "i + 1 \<noteq> 14" by (cases bs) auto
    with Cons.IH [of "i + 1" "rb[i := b]"] Cons.prems False show ?thesis
      by (simp add: Let_def)
  qed
qed

lemma read14Loop_timeouts:
  "0 < t \<Longrightarrow> read14Loop (replicate t SelectTimeout @ es) i rb = read14Loop es 0 rb"
proof (induction t arbitrary: i)
  case 0
  then show ?case by simp
next
  case (Suc t)
  then show ?case by (cases t) auto
qed

lemma read14_frame:
  assumes "length bs = 14" "14 \<le> length rb"
  shows "\<exists>rb'. read14BytesPaket (map ReadByte bs @ es) rb = Some (0, rb', es)
           \<and> take 14 rb' = bs \<and> length rb' = length rb"
  using assms read14Loop_bytes_eq [of 0 bs es rb] take_store [of bs rb]
  by (cases bs) (auto simp: read14BytesPaket_def)


section \<open>The example frame\<close>

text \<open>
  C1. The frame with sign \<open>+\<close>, digits \<open>1234\<close>, byte 5 a space, byte 6 \<open>0x33\<close>, SB1 with
  exactly bits 4 (DC) and 5 (AUTO), SB2 = SB3 = 0, SB4 with exactly bit 7 (V), byte 11
  zero and CR LF at the end decodes with return code 0, whatever the time and the previous
  content of the output struct. The record has sign \<open>+\<close>, mode \<open>DC\<close>, info \<open>AUTO\<close>, unit
  \<open>V\<close>, an empty prefix, the display text \<open>123.4 V\<close> and the SI text \<open>123.4 V\<close>; the SI
  value is the \<^verbatim>\<open>double\<close> nearest to 123.4, less than \<open>1 / 10 ^ 13\<close> away from it.
\<close>

theorem example_frame_decodes:
  "decodeFS9922Paket now example_frame old =
     Some (0, \<lparr>receivedAt = now, rawRisplay = ''123.4'', sign = CHR ''+'',
         mode = ''DC'', unit = ''V'', prefix = [], fullUnit = ''V'',
         info = ''AUTO'', barGraph = 0, barGraphIsShown = False,
         batteryWarning = False, autoRangeActive = True, holdActive = False,
         deltaActive = False, overflow = False, formatedValue = ''123.4 V'',
         formatedSiValue = ''123.4 V''\<rparr>)
   \<and> siValue now example_frame old = Some (double_of_rat (1234 / 10))
   \<and> \<bar>rat_of_double (double_of_rat (1234 / 10)) - 1234 / 10\<bar> < 1 / 10 ^ 13"
  using example_frame_eval [of now old] example_siValue_eval [of now old] example_siValue_near
  by simp

section \<open>The frame synchronizer\<close>

text \<open>
  C3, as the code has it. A stream that delivers 20 bytes, then stalls for one or more
  \<^verbatim>\<open>select\<close> timeouts, then delivers 14 more bytes and ends (with or without an end-of-file
  from \<^verbatim>\<open>read\<close>) yields two frames when \<^verbatim>\<open>read14BytesPaket\<close> is called at least twice: the
  first 14 of the 20 bytes, returned as soon as they are there, and then the last 14 bytes.
  The 6 bytes left of the first 20 are dropped by the timeout; they are in no frame.
\<close>

theorem stalled_stream_two_frames:
  assumes "length early = 20" and "length late = 14" and "0 < stalls" and "2 \<le> count"
    and "14 \<le> length readBuffer" and "rest = [] \<or> rest = [ReadEOF]"
  shows "sampledFrames count
           (map ReadByte early @ replicate stalls SelectTimeout @ map ReadByte late @ rest)
           readBuffer
         = [take 14 early, late]"
proof -
  obtain n where count: "count = Suc (Suc n)"
    using \<open>2 \<le> count\<close> by (metis Suc_le_D numeral_2_eq_2 Suc_le_mono)
  let ?mid = "replicate stalls SelectTimeout @ map ReadByte late @ rest"
  let ?es1 = "map ReadByte (drop 14 early) @ ?mid"
  have split: "map ReadByte early @ ?mid = map ReadByte (take 14 early) @ ?es1"
    by (metis append_assoc append_take_drop_id map_append)
  have len1: "length (take 14 early) = 14"
    using assms(1) by simp
  obtain rb1 where rb1: "read14BytesPaket (map ReadByte (take 14 early) @ ?es1) readBuffer
        = Some (0, rb1, ?es1)" "take 14 rb1 = take 14 early" "length rb1 = length readBuffer"
    using read14_frame [OF len1 assms(5), of ?es1] by blast
  have "read14BytesPaket ?es1 rb1
      = read14Loop ?mid (length (drop 14 early)) (store rb1 0 (drop 14 early))"
    using assms(1) read14Loop_bytes_lt [of 0 "drop 14 early" ?mid rb1]
    by (simp add: read14BytesPaket_def)
  also have "\<dots> = read14Loop (map ReadByte late @ rest) 0 (store rb1 0 (drop 14 early))"
    using read14Loop_timeouts [OF assms(3)] by simp
  finally have second: "read14BytesPaket ?es1 rb1
      = read14BytesPaket (map ReadByte late @ rest) (store rb1 0 (drop 14 early))"
    by (simp add: read14BytesPaket_def)
  obtain rb2 where rb2: "read14BytesPaket ?es1 rb1 = Some (0, rb2, rest)" "take 14 rb2 = late"
    using read14_frame [OF assms(2), of "store rb1 0 (drop 14 early)" rest] assms(5) rb1(3) second
    by auto
  have third: "sampledFrames n rest rb2 = []"
    using assms(6) by (cases n) (auto simp: read14BytesPaket_def END_OF_CAPTURE_FILE_def)
  show ?thesis
    unfolding count split
    by (simp add: rb1 rb2 third)
qed

theorem stalled_stream_two_frames_witness:
  "sampledFrames 10 stalled_stream empty_buffer =
     [[1, 2, 3, 4, 5, 6, 7, 8, 9, 10, 11, 12, 13, 14],
      [101, 102, 103, 104, 105, 106, 107, 108, 109, 110, 111, 112, 113, 114]]"
  using stalled_stream_two_frames
    [of "[1, 2, 3, 4, 5, 6, 7, 8, 9, 10, 11, 12, 13, 14, 15, 16, 17, 18, 19, 20]"
        "[101, 102, 103, 104, 105, 106, 107, 108, 109, 110, 111, 112, 113, 114]"
        1 10 empty_buffer "[ReadEOF]"]
  by (simp add: stalled_stream_def empty_buffer_def BUFFER_LEN_def)

text \<open>
  C3 as stated fails: on twenty bytes, a stall and fourteen bytes the synchronizer does not
  yield the last fourteen bytes as its only frame; the first frame is made of bytes of the
  first twenty.
\<close>

theorem stalled_stream_not_one_frame:
  "sampledFrames 10 stalled_stream empty_buffer =
     [[1, 2, 3, 4, 5, 6, 7, 8, 9, 10, 11, 12, 13, 14],
      [101, 102, 103, 104, 105, 106, 107, 108, 109, 110, 111, 112, 113, 114]]
   \<and> sampledFrames 10 stalled_stream empty_buffer \<noteq>
     [[101, 102, 103, 104, 105, 106, 107, 108, 109, 110, 111, 112, 113, 114]]"
  by (simp add: stalled_eval)

section \<open>Failed decodes\<close>

text \<open>
  C4, as the code has it. When \<^verbatim>\<open>decodeFS9922Paket\<close> returns an error code, the code is
  \<open>-1\<close>, \<open>-2\<close> or \<open>-3\<close> and the caller's struct is the cleared struct with only the time of
  the call in it, whatever it held before: no field holds anything decoded from the frame.
\<close>

theorem failed_decode_clears_record:
  assumes "decodeFS9922Paket now buf old = Some (ret, r)" and "ret \<noteq> 0"
  shows "r = zeroed\<lparr>receivedAt := now\<rparr> \<and> (ret = - 1 \<or> ret = - 2 \<or> ret = - 3)"
  using assms
  by (auto simp: decodeFS9922Paket_def decodeBody_def Let_def bind_eq_Some_conv
      split: if_splits sum.splits prod.splits dest: copyOut_ret readValue_Inl)

theorem failed_decode_clears_record_witness:
  "decodeFS9922Paket (2, 0) space_missing_frame previous_record
     = Some (- 1, zeroed\<lparr>receivedAt := (2, 0)\<rparr>)"
  using failed_decode_clears_record [OF space_missing_eval [of "(2, 0)" previous_record]]
  by (simp add: space_missing_eval)


text \<open>
  C4 as stated fails: a record that holds an earlier reading is not left unchanged by a
  call on a frame with \<open>0x21\<close> at byte 5; it is cleared.
\<close>

theorem failed_decode_changes_record:
  "decodeFS9922Paket (2, 0) space_missing_frame previous_record
     = Some (- 1, zeroed\<lparr>receivedAt := (2, 0)\<rparr>)
   \<and> zeroed\<lparr>receivedAt := (2, 0)\<rparr> \<noteq> previous_record"
  by (simp add: space_missing_eval zeroed_def previous_record_def)


section \<open>Digits and decimal point\<close>

text \<open>
  C7. For a frame that passes the framing and sign gates and has four ASCII digits in bytes
  1 to 4, the string \<^verbatim>\<open>value\<close> is those four digits with a point after the first digit
  when byte 6 is \<open>0x31\<close>, after the second when it is \<open>0x32\<close>, after the third when it is
  \<open>0x33\<close> or \<open>0x34\<close>, and with no point for every other byte 6; whenever the call
  returns, it returns 0 with that string in \<^verbatim>\<open>rawRisplay\<close> and the overflow flag clear.
\<close>

theorem decimal_point_by_byte6:
  assumes "buf ! 5 = 0x20" and "buf ! 12 = 0x0d" and "buf ! 13 = 0x0a"
    and "buf ! 0 = 0x2b \<or> buf ! 0 = 0x2d"
    and "isdigit (buf ! 1)" and "isdigit (buf ! 2)" and "isdigit (buf ! 3)" and "isdigit (buf ! 4)"
  shows "let d1 = to_char (buf ! 1); d2 = to_char (buf ! 2);
             d3 = to_char (buf ! 3); d4 = to_char (buf ! 4);
             digits =
               (if buf ! 6 = 0x31 then [d1, CHR ''.'', d2, d3, d4]
                else if buf ! 6 = 0x32 then [d1, d2, CHR ''.'', d3, d4]
                else if buf ! 6 = 0x33 \<or> buf ! 6 = 0x34 then [d1, d2, d3, CHR ''.'', d4]
                else [d1, d2, d3, d4])
         in readValue buf vc = Some (Inr (digits, vc)) \<and>
            (\<forall>ret r. decodeFS9922Paket now buf old = Some (ret, r) \<longrightarrow>
               ret = 0 \<and> \<not> overflow r \<and> rawRisplay r = digits)"
proof -
  have not_sentinel: "buf ! 1 \<noteq> 0x3f"
    using assms(5) by (auto simp: isdigit_def)
  have rv: "readValue buf c =
      Some (Inr (if buf ! 6 = 0x31 then [to_char (buf ! 1), CHR ''.'', to_char (buf ! 2), to_char (buf ! 3), to_char (buf ! 4)]
                else if buf ! 6 = 0x32 then [to_char (buf ! 1), to_char (buf ! 2), CHR ''.'', to_char (buf ! 3), to_char (buf ! 4)]
                else if buf ! 6 = 0x33 \<or> buf ! 6 = 0x34 then [to_char (buf ! 1), to_char (buf ! 2), to_char (buf ! 3), CHR ''.'', to_char (buf ! 4)]
                else [to_char (buf ! 1), to_char (buf ! 2), to_char (buf ! 3), to_char (buf ! 4)], c))" for c
    using assms(5-8) not_sentinel
    by (simp add: readValue_def readDigits_4 Let_def strinsert_def strcpy_def)
  have "ret = 0 \<and> \<not> overflow r \<and> rawRisplay r = fst (projr (the (readValue buf (zeroed\<lparr>receivedAt := now\<rparr>))))"
    if d: "decodeFS9922Paket now buf old = Some (ret, r)" for ret r
  proof -
    have "ret = 0"
      using d assms(1-4) rv [of "zeroed\<lparr>receivedAt := now\<rparr>"]
      by (auto simp: decodeFS9922Paket_def decodeBody_def Let_def bind_eq_Some_conv
          split: if_splits prod.splits dest: copyOut_ret)
    with d obtain val c0 c l v where
      "readValue buf (zeroed\<lparr>receivedAt := now\<rparr>) = Some (Inr (val, c0))"
      "statusBytes buf c0 = Some (c, l)"
      "formatValues buf (if buf ! 0 = 0x2d then - 1 else 1) val l = Some v"
      "copyOut c v = Some (0, r)"
      using decode_Some_0 [of now buf old r] by blast
    with rv [of "zeroed\<lparr>receivedAt := now\<rparr>"] \<open>ret = 0\<close> show ?thesis
      by (auto dest!: formatValues_Some copyOut_Some statusBytes_overflow simp: zeroed_def)
  qed
  then show ?thesis
    unfolding Let_def using rv [of vc] rv [of "zeroed\<lparr>receivedAt := now\<rparr>"] by auto
qed

theorem decimal_point_by_byte6_witness:
  "readValue example_frame zeroed = Some (Inr (''123.4'', zeroed))
   \<and> (\<exists>r. decodeFS9922Paket (0, 0) example_frame zeroed = Some (0, r) \<and> rawRisplay r = ''123.4'')"
proof -
  have b: "example_frame ! 5 = 0x20" "example_frame ! 12 = 0x0d" "example_frame ! 13 = 0x0a"
    "example_frame ! 0 = 0x2b \<or> example_frame ! 0 = 0x2d"
    "isdigit (example_frame ! 1)" "isdigit (example_frame ! 2)"
    "isdigit (example_frame ! 3)" "isdigit (example_frame ! 4)"
    by (simp_all add: example_frame_def isdigit_def)
  have c: "example_frame ! 6 = 0x33"
    by (simp add: example_frame_def)
  have d: "to_char (example_frame ! 1) = CHR ''1''" "to_char (example_frame ! 2) = CHR ''2''"
    "to_char (example_frame ! 3) = CHR ''3''" "to_char (example_frame ! 4) = CHR ''4''"
    by code_simp+
  from decimal_point_by_byte6 [OF b, of zeroed "(0, 0)" zeroed] c d
    example_frame_eval [of "(0, 0)" zeroed]
  show ?thesis
    by (simp add: Let_def)
qed

section \<open>The bar graph\<close>




section \<open>Determinism\<close>

text \<open>
  C9 at the frame \<open>+1234\<close> with point code \<open>0x33\<close> and the eight unit bits of SB4 set. The
  display text would be \<open>123.4\<close>, a space and 23 bytes of unit labels; \<^verbatim>\<open>strcat\<close> writes
  them past the end of \<^verbatim>\<open>vWithUnit[20]\<close>. Neither of two calls on these bytes has a defined
  result, at whatever times and on whatever structs: the code gives two calls on such a
  frame neither equal records nor the same error.
\<close>

theorem overrun_leaves_both_calls_undefined:
  "decodeFS9922Paket now1 digits_all_units_frame old1 = None
   \<and> decodeFS9922Paket now2 digits_all_units_frame old2 = None"
  by (simp add: digits_all_units_eval)

text \<open>
  X7. Whenever a call returns, every other call on the same frame bytes returns as well,
  with the same code and a record equal in every field but \<^verbatim>\<open>receivedAt\<close>, which holds
  the time of that call; the previous content of the struct has no influence.
\<close>

theorem returned_result_depends_on_frame_only:
  assumes "decodeFS9922Paket now1 buf old1 = Some (ret, r)"
  shows "decodeFS9922Paket now2 buf old2 = Some (ret, r\<lparr>receivedAt := now2\<rparr>)"
  using assms decode_receivedAt [of now2 buf old2 now1 old1] by simp

theorem returned_result_depends_on_frame_only_witness:
  "\<exists>r. decodeFS9922Paket (1, 0) example_frame zeroed = Some (0, r)
       \<and> decodeFS9922Paket (2, 500000) example_frame previous_record
           = Some (0, r\<lparr>receivedAt := (2, 500000)\<rparr>)
       \<and> formatedValue r = ''123.4 V''"
proof -
  obtain r where r: "decodeFS9922Paket (1, 0) example_frame zeroed = Some (0, r)"
    and f: "formatedValue r = ''123.4 V''"
    using example_frame_eval [of "(1, 0)" zeroed] by simp
  from returned_result_depends_on_frame_only [OF r, of "(2, 500000)" previous_record] r f
  show ?thesis
    by blast
qed

section \<open>The SI multiplier\<close>

text \<open>
  C2 at the frame \<open>+1234\<close> with only the prefix bit k (and the unit ohm). Line 316 tests the
  prefix \<open>k\<close> a second time and overrides the \<open>1000\<close> of line 315: the multiplier is
  \<open>1000000\<close>, and the SI value is \<open>1234000000\<close>, not the display value times 1000.
\<close>

theorem kilo_prefix_scales_by_million:
  "multToSi ''k'' = double_of_rat (10 ^ 6)
   \<and> siValue now kilo_frame old = Some (Double False (1234 * 10 ^ 6))
   \<and> siValue now kilo_frame old \<noteq> Some (Double False (1234 * 10 ^ 3))"
  using kilo_eval [of now old] by (simp add: multToSi_def Let_def)

text \<open>
  X1. The multiplier for every string \<^verbatim>\<open>prefix\<close>: the constants \<open>1e-9\<close>, \<open>1e-6\<close> and \<open>1e-3\<close> for
  \<open>n\<close>, micro and \<open>m\<close>, one million for \<open>k\<close>, and 1 for the empty string and every other
  string, among them \<open>M\<close>, \<open>%\<close> and every string of two or more labels.
\<close>

theorem multToSi_table:
  "multToSi pre =
     (if pre = ''n'' then double_of_rat (1 / 10 ^ 9)
      else if pre = micro then double_of_rat (1 / 10 ^ 6)
      else if pre = ''m'' then double_of_rat (1 / 10 ^ 3)
      else if pre = ''k'' then double_of_rat (10 ^ 6)
      else double_of_rat 1)"
  by (simp add: multToSi_def Let_def micro_def)


section \<open>The overflow sentinel\<close>

text \<open>
  C5 at the frame with the sentinel \<open>?0:?\<close>, sign \<open>+\<close> and all 32 status bits set. The
  display text would be \<open>OVF\<close>, a space, 12 bytes of prefix labels and 23 bytes of unit
  labels; \<^verbatim>\<open>strcat\<close> writes them past the end of \<^verbatim>\<open>vWithUnit[20]\<close>, and the call has no
  defined result.
\<close>

theorem sentinel_all_bits_overruns:
  "decodeFS9922Paket now sentinel_all_bits_frame old = None"
  by (rule sentinel_all_bits_eval)

text \<open>
  C10 at the frame with the sentinel, sign \<open>-\<close> and the eight unit bits of SB4 set: the
  23 bytes of unit labels do not fit \<^verbatim>\<open>vWithUnit[20]\<close> after \<open>-OVF\<close> and a space, nor
  \<^verbatim>\<open>vSiWithUnit[20]\<close> after \<open>-0.0\<close> and a space, and the call has no defined result.
\<close>

theorem sentinel_all_units_overruns:
  "decodeFS9922Paket now sentinel_all_units_frame old = None"
  by (rule sentinel_all_units_eval)

text \<open>
  X2. What the code does on every frame that passes the framing and sign gates and holds the
  sentinel in bytes 1 to 4, whatever byte 6 is. The status bytes are decoded as for any
  frame. When the display text (the sign if negative, \<open>OVF\<close>, a space, the prefix and unit
  labels) is shorter than 20 bytes, the call returns 0 with the overflow flag set, \<open>OVF\<close>
  as digits, mode, prefix, unit and info from the status bytes, the bar graph from byte 11,
  an SI value of zero with the sign of the frame and the SI text \<open>0.0\<close> or \<open>-0.0\<close>, a
  space and the unit. Otherwise the call writes past the end of \<^verbatim>\<open>vWithUnit[20]\<close>.
\<close>

theorem sentinel_frame_decodes:
  assumes "buf ! 5 = 0x20" and "buf ! 12 = 0x0d" and "buf ! 13 = 0x0a"
    and "buf ! 0 = 0x2b \<or> buf ! 0 = 0x2d"
    and "buf ! 1 = 0x3f" and "buf ! 2 = 0x30" and "buf ! 3 = 0x3a" and "buf ! 4 = 0x3f"
  shows "\<exists>c l. statusBytes buf (zeroed\<lparr>receivedAt := now, overflow := True\<rparr>) = Some (c, l) \<and>
     (let neg = (buf ! 0 = 0x2d);
          shown = (if neg then ''-'' else []) @ ''OVF '' @ l_prefix l @ l_unit l
      in if length shown < 20
         then decodeFS9922Paket now buf old =
                Some (0, c\<lparr>sign := (if neg then CHR ''-'' else CHR ''+''),
                  barGraph := uint (buf ! 11 AND 0x7f), rawRisplay := ''OVF'',
                  mode := l_mode l, info := l_info l, unit := l_unit l, prefix := l_prefix l,
                  fullUnit := l_prefix l @ l_unit l, formatedValue := shown,
                  formatedSiValue := (if neg then ''-0.0 '' else ''0.0 '') @ l_unit l\<rparr>)
              \<and> overflow c \<and> siValue now buf old = Some (Double neg 0)
         else decodeFS9922Paket now buf old = None)"
proof -
  let ?c0 = "zeroed\<lparr>receivedAt := now, overflow := True\<rparr>"
  obtain c l where sb: "statusBytes buf ?c0 = Some (c, l)"
    using statusBytes_total [of buf ?c0] by blast
  have rv: "readValue buf (zeroed\<lparr>receivedAt := now\<rparr>) = Some (Inr (''OVF'', ?c0))"
    using assms(5-8) by (simp add: readValue_sentinel)
  have ov: "overflow c"
    using statusBytes_overflow [OF sb] by simp
  have sv: "siValue now buf old = Some (Double (buf ! 0 = 0x2d) 0)"
    if "length ((if buf ! 0 = 0x2d then ''-'' else []) @ ''OVF '' @ l_prefix l @ l_unit l) < 20"
    using that assms(1-4)
    by (auto simp: siValue_def decodeBody_def Let_def rv sb formatValues_def strcat_def
        vSi_OVF si_text_zero)
  show ?thesis
    using decode_passed [OF assms(1-4) rv sb, of old] assms(4) ov sv
    by (intro exI [of _ c] exI [of _ l]) (auto simp: Let_def vSi_OVF si_text_zero sb)
qed

theorem sentinel_frame_decodes_witness:
  "decodeFS9922Paket (0, 0) sentinel_frame zeroed =
     Some (0, \<lparr>receivedAt = (0, 0), rawRisplay = ''OVF'', sign = CHR ''-'', mode = [],
        unit = ohm, prefix = ''k'', fullUnit = ''k'' @ ohm, info = ''AUTO'', barGraph = 12,
        barGraphIsShown = False, batteryWarning = False, autoRangeActive = True,
        holdActive = False, deltaActive = False, overflow = True,
        formatedValue = ''-OVF k'' @ ohm, formatedSiValue = ''-0.0 '' @ ohm\<rparr>)"
proof -
  have b: "sentinel_frame ! 5 = 0x20" "sentinel_frame ! 12 = 0x0d" "sentinel_frame ! 13 = 0x0a"
    "sentinel_frame ! 0 = 0x2b \<or> sentinel_frame ! 0 = 0x2d"
    "sentinel_frame ! 1 = 0x3f" "sentinel_frame ! 2 = 0x30" "sentinel_frame ! 3 = 0x3a"
    "sentinel_frame ! 4 = 0x3f"
    by (simp_all add: sentinel_frame_def)
  have s: "statusBytes sentinel_frame (zeroed\<lparr>receivedAt := (0, 0), overflow := True\<rparr>) =
      Some (zeroed\<lparr>receivedAt := (0, 0), overflow := True, autoRangeActive := True\<rparr>,
            \<lparr>l_mode = [], l_prefix = ''k'', l_unit = ohm, l_info = ''AUTO''\<rparr>)"
    by code_simp
  have n: "sentinel_frame ! 0 = 0x2d" "sentinel_frame ! 11 = 0x0c"
    by (simp_all add: sentinel_frame_def)
  from sentinel_frame_decodes [OF b, of "(0, 0)" zeroed] obtain c l where
    cl: "statusBytes sentinel_frame (zeroed\<lparr>receivedAt := (0, 0), overflow := True\<rparr>) = Some (c, l)"
    and d: "let neg = (sentinel_frame ! 0 = 0x2d);
          shown = (if neg then ''-'' else []) @ ''OVF '' @ l_prefix l @ l_unit l
      in if length shown < 20
         then decodeFS9922Paket (0, 0) sentinel_frame zeroed =
                Some (0, c\<lparr>sign := (if neg then CHR ''-'' else CHR ''+''),
                  barGraph := uint (sentinel_frame ! 11 AND 0x7f), rawRisplay := ''OVF'',
                  mode := l_mode l, info := l_info l, unit := l_unit l, prefix := l_prefix l,
                  fullUnit := l_prefix l @ l_unit l, formatedValue := shown,
                  formatedSiValue := (if neg then ''-0.0 '' else ''0.0 '') @ l_unit l\<rparr>)
              \<and> overflow c \<and> siValue (0, 0) sentinel_frame zeroed = Some (Double neg 0)
         else decodeFS9922Paket (0, 0) sentinel_frame zeroed = None"
    by blast
  from cl s have "c = zeroed\<lparr>receivedAt := (0, 0), overflow := True, autoRangeActive := True\<rparr>"
    and "l = \<lparr>l_mode = [], l_prefix = ''k'', l_unit = ohm, l_info = ''AUTO''\<rparr>"
    by simp_all
  with d show ?thesis
    by (simp add: n Let_def ohm_def zeroed_def)
qed


section \<open>The display text\<close>

text \<open>
  C6 at the frame \<open>+0000\<close> with no decimal point, DC and V. The loop of line 333 stops only
  at a zero that stands before a point, so it skips all four zeros: the call returns 0 and
  the display text is a space and \<open>V\<close>, with no digit.
\<close>

theorem zero_reading_shows_no_digit:
  "map_option (\<lambda>(ret, r). (ret, overflow r, rawRisplay r, formatedValue r))
     (decodeFS9922Paket now zero_reading_frame old) = Some (0, False, ''0000'', '' V'')
   \<and> skipZeros ''0000'' = []"
  by (simp add: zero_reading_eval)

text \<open>
  X3. In every record of a successful decode the display text is a \<open>-\<close> exactly when byte 0
  of the frame is \<open>-\<close>, then the digits as \<^verbatim>\<open>skipZeros\<close> leaves them, one space, the prefix
  labels and the unit labels.
\<close>

theorem display_text_structure:
  assumes "decodeFS9922Paket now buf old = Some (0, r)"
  shows "formatedValue r =
           (if sign r = CHR ''-'' then ''-'' else []) @ skipZeros (rawRisplay r) @ '' ''
             @ prefix r @ unit r
         \<and> (sign r = CHR ''-'') = (buf ! 0 = 0x2d)"
proof -
  obtain c v val l where "buf ! 0 = 0x2b \<or> buf ! 0 = 0x2d"
    and "formatValues buf (if buf ! 0 = 0x2d then - 1 else 1) val l = Some v"
    and "copyOut c v = Some (0, r)"
    using decode_Some_0 [OF assms] by blast
  then show ?thesis
    by (auto dest!: formatValues_Some copyOut_Some)
qed

theorem display_text_structure_witness:
  "\<exists>r. decodeFS9922Paket (0, 0) example_frame zeroed = Some (0, r)
       \<and> formatedValue r = ''123.4 V'' \<and> sign r \<noteq> CHR ''-''"
proof -
  obtain r where r: "decodeFS9922Paket (0, 0) example_frame zeroed = Some (0, r)"
    and f: "rawRisplay r = ''123.4''" "prefix r = []" "unit r = ''V''" "sign r = CHR ''+''"
    using example_frame_eval [of "(0, 0)" zeroed] by simp
  from display_text_structure [OF r] f have "formatedValue r = ''123.4 V''"
    by simp
  with r f show ?thesis
    by auto
qed

section \<open>The label arrays\<close>

text \<open>
  X4. The four arrays of \<open>BUFFER_LEN\<close> bytes that \<^verbatim>\<open>checkInfo\<close> appends to hold the labels
  of every frame: the status decoding of lines 262 to 309 never writes past their end, and
  each result is shorter than \<open>BUFFER_LEN\<close>.
\<close>

theorem label_arrays_never_overrun:
  "\<exists>c l. statusBytes buf vc = Some (c, l) \<and> length (l_mode l) < BUFFER_LEN \<and>
     length (l_prefix l) < BUFFER_LEN \<and> length (l_unit l) < BUFFER_LEN \<and>
     length (l_info l) < BUFFER_LEN"
  by (rule statusBytes_total)

section \<open>The gates and their error codes\<close>

text \<open>
  X5. The three gates in the order of the source: a frame without the space at byte 5 or
  without CR LF at bytes 12 and 13 gives \<open>-1\<close>, whatever else it holds; a well-framed one
  whose byte 0 is neither \<open>+\<close> nor \<open>-\<close> gives \<open>-2\<close>; a well-framed, signed one whose bytes
  1 to 4 are neither the sentinel nor four digits gives \<open>-3\<close>. Each time the struct is the
  cleared one with the time of the call.
\<close>

theorem gates_in_order:
  "(buf ! 5 \<noteq> 0x20 \<or> buf ! 12 \<noteq> 0x0d \<or> buf ! 13 \<noteq> 0x0a \<longrightarrow>
      decodeFS9922Paket now buf old = Some (- 1, zeroed\<lparr>receivedAt := now\<rparr>))
   \<and> (buf ! 5 = 0x20 \<and> buf ! 12 = 0x0d \<and> buf ! 13 = 0x0a \<and> buf ! 0 \<noteq> 0x2b \<and> buf ! 0 \<noteq> 0x2d \<longrightarrow>
      decodeFS9922Paket now buf old = Some (- 2, zeroed\<lparr>receivedAt := now\<rparr>))
   \<and> (buf ! 5 = 0x20 \<and> buf ! 12 = 0x0d \<and> buf ! 13 = 0x0a \<and> (buf ! 0 = 0x2b \<or> buf ! 0 = 0x2d)
        \<and> \<not> (buf ! 1 = 0x3f \<and> buf ! 2 = 0x30 \<and> buf ! 3 = 0x3a \<and> buf ! 4 = 0x3f)
        \<and> \<not> (isdigit (buf ! 1) \<and> isdigit (buf ! 2) \<and> isdigit (buf ! 3) \<and> isdigit (buf ! 4)) \<longrightarrow>
      decodeFS9922Paket now buf old = Some (- 3, zeroed\<lparr>receivedAt := now\<rparr>))"
  by (auto simp: decodeFS9922Paket_def decodeBody_def readValue_def readDigits_4 Let_def)

theorem gates_in_order_witness:
  "decodeFS9922Paket (0, 0) space_missing_frame zeroed = Some (- 1, zeroed\<lparr>receivedAt := (0, 0)\<rparr>)
   \<and> decodeFS9922Paket (0, 0) sign_missing_frame zeroed = Some (- 2, zeroed\<lparr>receivedAt := (0, 0)\<rparr>)
   \<and> decodeFS9922Paket (0, 0) digit_missing_frame zeroed = Some (- 3, zeroed\<lparr>receivedAt := (0, 0)\<rparr>)"
proof -
  have "space_missing_frame ! 5 \<noteq> 0x20"
    by (simp add: space_missing_frame_def)
  with gates_in_order [of space_missing_frame "(0, 0)" zeroed]
  have a: "decodeFS9922Paket (0, 0) space_missing_frame zeroed
      = Some (- 1, zeroed\<lparr>receivedAt := (0, 0)\<rparr>)"
    by blast
  have "sign_missing_frame ! 5 = 0x20 \<and> sign_missing_frame ! 12 = 0x0d
      \<and> sign_missing_frame ! 13 = 0x0a \<and> sign_missing_frame ! 0 \<noteq> 0x2b
      \<and> sign_missing_frame ! 0 \<noteq> 0x2d"
    by (simp add: sign_missing_frame_def)
  with gates_in_order [of sign_missing_frame "(0, 0)" zeroed]
  have b: "decodeFS9922Paket (0, 0) sign_missing_frame zeroed
      = Some (- 2, zeroed\<lparr>receivedAt := (0, 0)\<rparr>)"
    by blast
  have "digit_missing_frame ! 5 = 0x20 \<and> digit_missing_frame ! 12 = 0x0d
      \<and> digit_missing_frame ! 13 = 0x0a
      \<and> (digit_missing_frame ! 0 = 0x2b \<or> digit_missing_frame ! 0 = 0x2d)
      \<and> \<not> (digit_missing_frame ! 1 = 0x3f \<and> digit_missing_frame ! 2 = 0x30
            \<and> digit_missing_frame ! 3 = 0x3a \<and> digit_missing_frame ! 4 = 0x3f)
      \<and> \<not> (isdigit (digit_missing_frame ! 1) \<and> isdigit (digit_missing_frame ! 2)
            \<and> isdigit (digit_missing_frame ! 3) \<and> isdigit (digit_missing_frame ! 4))"
    by (simp add: digit_missing_frame_def isdigit_def)
  with gates_in_order [of digit_missing_frame "(0, 0)" zeroed]
  have c: "decodeFS9922Paket (0, 0) digit_missing_frame zeroed
      = Some (- 3, zeroed\<lparr>receivedAt := (0, 0)\<rparr>)"
    by blast
  from a b c show ?thesis
    by simp
qed

section \<open>Resynchronization on a timeout\<close>

text \<open>
  X6. Fewer than 14 bytes followed by one or more \<^verbatim>\<open>select\<close> timeouts are dropped: the
  next 14 bytes, read without a timeout between them, are the frame that
  \<^verbatim>\<open>read14BytesPaket\<close> returns with code 0, and what follows them in the stream is left
  for the next call.
\<close>

theorem timeout_discards_partial_frame:
  assumes "length partial < 14" and "length bs = 14" and "0 < stalls"
    and "14 \<le> length readBuffer"
  shows "\<exists>rb. read14BytesPaket
                 (map ReadByte partial @ replicate stalls SelectTimeout @ map ReadByte bs @ es)
                 readBuffer = Some (0, rb, es)
              \<and> take 14 rb = bs"
proof -
  let ?mid = "replicate stalls SelectTimeout @ map ReadByte bs @ es"
  have "read14BytesPaket (map ReadByte partial @ ?mid) readBuffer
      = read14Loop ?mid (length partial) (store readBuffer 0 partial)"
    using assms(1) read14Loop_bytes_lt [of 0 partial ?mid readBuffer]
    by (simp add: read14BytesPaket_def)
  also have "\<dots> = read14BytesPaket (map ReadByte bs @ es) (store readBuffer 0 partial)"
    using read14Loop_timeouts [OF assms(3)] by (simp add: read14BytesPaket_def)
  finally show ?thesis
    using read14_frame [OF assms(2), of "store readBuffer 0 partial" es] assms(4)
    by auto
qed

theorem timeout_discards_partial_frame_witness:
  "\<exists>rb. read14BytesPaket
          (map ReadByte [15, 16, 17, 18, 19, 20] @ replicate 1 SelectTimeout
           @ map ReadByte [101, 102, 103, 104, 105, 106, 107, 108, 109, 110, 111, 112, 113, 114]
           @ [ReadEOF])
          empty_buffer = Some (0, rb, [ReadEOF])
       \<and> take 14 rb = [101, 102, 103, 104, 105, 106, 107, 108, 109, 110, 111, 112, 113, 114]"
  using timeout_discards_partial_frame
    [of "[15, 16, 17, 18, 19, 20]"
        "[101, 102, 103, 104, 105, 106, 107, 108, 109, 110, 111, 112, 113, 114]"
        1 empty_buffer "[ReadEOF]"]
  by (simp add: empty_buffer_def BUFFER_LEN_def)

end
